theory Spec2Isabelle
  imports Main "HOL-Library.Sublist"
begin

section \<open>The reservation handler of el-rincon-digital\<close>

text \<open>
  A shallow embedding of \<^verbatim>\<open>supabase/functions/handle-reservation/index.ts\<close>:
  the validation function, the retry helper and the request handler passed to
  \<^verbatim>\<open>serve\<close>.

  Conventions of the embedding.
  \<^item> A JavaScript string is a \<open>string\<close>; a \<open>char\<close> stands for a UTF-16 code unit
    below 256 (the Latin-1 range), so \<^verbatim>\<open>o-acute\<close> is the single character \<open>0xF3\<close>.
  \<^item> A field of the request body that may be absent is a \<open>string option\<close>:
    \<open>None\<close> is \<^verbatim>\<open>undefined\<close>.
  \<^item> A thrown value is an \<open>error\<close> carrying its \<^verbatim>\<open>message\<close> (\<open>error_message\<close>); a
    function that may throw returns \<open>error + 'a\<close>, with \<open>Inl\<close> for the throw.
  \<^item> A time value is an \<open>int\<close>: milliseconds since the epoch, as in ECMAScript.
  \<^item> Output to the console is not modelled.
\<close>

subsection \<open>Values and errors\<close>

datatype error = Error (error_message: string)

text \<open>The JavaScript values that the handler puts into a response body or reads from a
  stored row. Numbers are integers here (row identifiers).\<close>

datatype jsval = JUndefined | JNull | JBool bool | JNum int | JStr string

fun truthy :: "jsval \<Rightarrow> bool" where
  "truthy JUndefined = False"
| "truthy JNull = False"
| "truthy (JBool b) = b"
| "truthy (JNum n) = (n \<noteq> 0)"
| "truthy (JStr s) = (s \<noteq> [])"

subsection \<open>Configuration\<close>

definition MAX_RETRIES :: int where
  "MAX_RETRIES = 3"

definition RETRY_DELAY :: int where
  "RETRY_DELAY = 500"

subsection \<open>retryOperation\<close>

text \<open>
  The operation is a closure that may change the state it captures: it maps the state
  before the call to its outcome and the state after. What \<^verbatim>\<open>retryOperation\<close> itself
  does is recorded in a trace: \<open>Invoked\<close> for each \<^verbatim>\<open>await operation()\<close> and
  \<open>Waited ms\<close> for each \<^verbatim>\<open>setTimeout(resolve, ms)\<close> that it awaits.
\<close>

datatype event = Invoked | Waited int

type_synonym ('s, 'a) operation = "'s \<Rightarrow> (error + 'a) \<times> 's"

text \<open>The \<^verbatim>\<open>for\<close> loop, from a given value of \<^verbatim>\<open>attempt\<close> and \<^verbatim>\<open>lastError\<close>, followed
  by the final \<^verbatim>\<open>throw\<close>.\<close>

function retryLoop ::
  "('s, 'a) operation \<Rightarrow> int \<Rightarrow> int \<Rightarrow> int \<Rightarrow> error option \<Rightarrow> 's \<Rightarrow> event list
     \<Rightarrow> (error + 'a) \<times> 's \<times> event list" where
  "retryLoop operation maxRetries delay attempt lastError s tr =
     (if attempt < maxRetries then
        (case operation s of
           (Inr v, s') \<Rightarrow> (Inr v, s', tr @ [Invoked])
         | (Inl err, s') \<Rightarrow>
             retryLoop operation maxRetries delay (attempt + 1) (Some err) s'
               (if attempt < maxRetries - 1
                then tr @ [Invoked, Waited (delay * (attempt + 1))]
                else tr @ [Invoked]))
      else
        (Inl (case lastError of
                Some err \<Rightarrow> err
              | None \<Rightarrow> Error ''Operation failed after maximum retries''),
         s, tr))"
  by pat_completeness auto
termination
  by (relation "measure (\<lambda>(operation, maxRetries, delay, attempt, lastError, s, tr).
        nat (maxRetries - attempt))") auto

declare retryLoop.simps [simp del]

definition retryOperation ::
  "('s, 'a) operation \<Rightarrow> int \<Rightarrow> int \<Rightarrow> 's \<Rightarrow> (error + 'a) \<times> 's \<times> event list" where
  "retryOperation operation maxRetries delay s =
     retryLoop operation maxRetries delay 0 None s []"

subsection \<open>Time values and dates\<close>

text \<open>
  What the handler reads from its runtime: the clock, the local time zone and the date
  parser. \<open>clock rt k\<close> is the time value of the \<open>k\<close>-th \<^verbatim>\<open>new Date()\<close> evaluated
  while one request is handled (\<open>k = 0\<close> inside the validation, \<open>k = i + 1\<close> in the
  \<open>i\<close>-th insert attempt). \<open>localTZA rt\<close> is the offset of local time from UTC in
  milliseconds, taken as constant (no daylight-saving change is modelled).
  \<open>parseOther rt\<close> is \<^verbatim>\<open>Date.parse\<close> on every string that is not a calendar date
  written \<^verbatim>\<open>YYYY-MM-DD\<close>: ECMAScript leaves most of it to the implementation, so it
  stays a parameter; \<open>None\<close> is the time value \<^verbatim>\<open>NaN\<close> of an invalid date.
\<close>

record runtime =
  clock :: "nat \<Rightarrow> int"
  localTZA :: int
  parseOther :: "string \<Rightarrow> int option"

definition msPerDay :: int where
  "msPerDay = 86400000"

definition Day :: "int \<Rightarrow> int" where
  "Day t = t div msPerDay"

definition DaysInYear :: "int \<Rightarrow> int" where
  "DaysInYear y =
     (if y mod 4 \<noteq> 0 then 365
      else if y mod 100 \<noteq> 0 then 366
      else if y mod 400 \<noteq> 0 then 365
      else 366)"

definition DayFromYear :: "int \<Rightarrow> int" where
  "DayFromYear y =
     365 * (y - 1970) + (y - 1969) div 4 - (y - 1901) div 100 + (y - 1601) div 400"

text \<open>Months are numbered from 0, as in ECMAScript.\<close>

definition DaysInMonth :: "int \<Rightarrow> int \<Rightarrow> int" where
  "DaysInMonth y m =
     (if m = 1 then DaysInYear y - 337
      else if 0 \<le> m \<and> m < 12
      then [31, 28, 31, 30, 31, 30, 31, 31, 30, 31, 30, 31] ! nat m
      else 0)"

definition DayWithinYear :: "int \<Rightarrow> int \<Rightarrow> int" where
  "DayWithinYear y m =
     (if 0 \<le> m \<and> m < 12
      then [0, 31, 59, 90, 120, 151, 181, 212, 243, 273, 304, 334] ! nat m
           + (if 2 \<le> m then DaysInYear y - 365 else 0)
      else 0)"

text \<open>\<^verbatim>\<open>MakeDay\<close> for a month in \<open>0..11\<close>: the day number of a calendar date.\<close>

definition MakeDay :: "int \<Rightarrow> int \<Rightarrow> int \<Rightarrow> int" where
  "MakeDay y m d = DayFromYear y + DayWithinYear y m + d - 1"

definition LocalTime :: "runtime \<Rightarrow> int \<Rightarrow> int" where
  "LocalTime rt t = t + localTZA rt"

definition UTC :: "runtime \<Rightarrow> int \<Rightarrow> int" where
  "UTC rt t = t - localTZA rt"

text \<open>\<^verbatim>\<open>d.setHours(0, 0, 0, 0)\<close> on a date with time value \<open>t\<close>: local midnight of the
  local day of \<open>t\<close>.\<close>

definition setHours0 :: "runtime \<Rightarrow> int \<Rightarrow> int" where
  "setHours0 rt t = UTC rt (Day (LocalTime rt t) * msPerDay)"

definition isDigit :: "char \<Rightarrow> bool" where
  "isDigit c = (48 \<le> (of_char c :: nat) \<and> (of_char c :: nat) \<le> 57)"

definition digitValue :: "char \<Rightarrow> int" where
  "digitValue c = int (of_char c) - 48"

definition decimal :: "string \<Rightarrow> int option" where
  "decimal s =
     (if s \<noteq> [] \<and> list_all isDigit s
      then Some (foldl (\<lambda>n c. 10 * n + digitValue c) 0 s)
      else None)"

text \<open>A calendar date written \<^verbatim>\<open>YYYY-MM-DD\<close>: year, month (from 1) and day of a date
  that exists. Every other string is left to \<open>parseOther\<close>.\<close>

definition isoDateOnly :: "string \<Rightarrow> (int \<times> int \<times> int) option" where
  "isoDateOnly s =
     (if length s = 10 \<and> s ! 4 = CHR ''-'' \<and> s ! 7 = CHR ''-'' then
        (case (decimal (take 4 s), decimal (take 2 (drop 5 s)), decimal (drop 8 s)) of
           (Some y, Some m, Some d) \<Rightarrow>
             if 1 \<le> m \<and> m \<le> 12 \<and> 1 \<le> d \<and> d \<le> DaysInMonth y (m - 1)
             then Some (y, m, d) else None
         | _ \<Rightarrow> None)
      else None)"

text \<open>The time value of \<^verbatim>\<open>new Date(s)\<close>. A date-only form is midnight UTC.\<close>

definition Date_parse :: "runtime \<Rightarrow> string \<Rightarrow> int option" where
  "Date_parse rt s =
     (case isoDateOnly s of
        Some (y, m, d) \<Rightarrow> Some (MakeDay y (m - 1) d * msPerDay)
      | None \<Rightarrow> parseOther rt s)"

subsection \<open>The request body and its validation\<close>

record ReservationData =
  name :: "string option"
  email :: "string option"
  date :: "string option"
  time :: "string option"
  guests :: "string option"
  message :: "string option"
  reservationType :: "string option"
  eventType :: "string option"
  attendees :: "string option"
  eventDescription :: "string option"

text \<open>\<^verbatim>\<open>!v\<close> for a string that may be absent.\<close>

definition falsy :: "string option \<Rightarrow> bool" where
  "falsy v = (case v of None \<Rightarrow> True | Some s \<Rightarrow> s = [])"

text \<open>\<^verbatim>\<open>String(v)\<close>, as a template literal and \<^verbatim>\<open>RegExp.prototype.test\<close> apply it.\<close>

definition toString :: "string option \<Rightarrow> string" where
  "toString v = (case v of None \<Rightarrow> ''undefined'' | Some s \<Rightarrow> s)"

text \<open>\<^verbatim>\<open>v || 'N/A'\<close> inside a template literal.\<close>

definition orNA :: "string option \<Rightarrow> string" where
  "orNA v = (if falsy v then ''N/A'' else toString v)"

text \<open>The class \<^verbatim>\<open>\s\<close> among the code units below 256: tab, line feed, vertical tab, form
  feed, carriage return, space and no-break space.\<close>

definition isSpace :: "char \<Rightarrow> bool" where
  "isSpace c = ((of_char c :: nat) \<in> {9, 10, 11, 12, 13, 32, 160})"

text \<open>The class \<^verbatim>\<open>[^\s@]\<close>.\<close>

definition notSpaceAt :: "char \<Rightarrow> bool" where
  "notSpaceAt c = (\<not> isSpace c \<and> c \<noteq> CHR ''@'')"

text \<open>
  \<^verbatim>\<open>/^[^\s@]+@[^\s@]+\.[^\s@]+$/.test(s)\<close>. The first run of the class ends at the first
  character outside it, which has to be the \<^verbatim>\<open>@\<close>; what follows has to stay in the class
  to the end of the string and to have a dot that is neither its first nor its last
  character.
\<close>

definition emailRegex_test :: "string \<Rightarrow> bool" where
  "emailRegex_test s =
     (takeWhile notSpaceAt s \<noteq> [] \<and>
      (case dropWhile notSpaceAt s of
         [] \<Rightarrow> False
       | c # rest \<Rightarrow>
           c = CHR ''@'' \<and> list_all notSpaceAt rest \<and> CHR ''.'' \<in> set (butlast (tl rest))))"

record validation =
  valid :: bool
  v_message :: "string option"

text \<open>\<^verbatim>\<open>reservationDate < today\<close>: a comparison with \<^verbatim>\<open>NaN\<close> is false.\<close>

definition dateBefore :: "int option \<Rightarrow> int \<Rightarrow> bool" where
  "dateBefore reservationDate today =
     (case reservationDate of None \<Rightarrow> False | Some t \<Rightarrow> t < today)"

text \<open>The three checks of \<^verbatim>\<open>validateReservationData\<close>, in the order of the source.\<close>

definition missingRequired :: "ReservationData \<Rightarrow> bool" where
  "missingRequired data =
     (falsy (name data) \<or> falsy (email data) \<or> falsy (date data) \<or> falsy (time data)
      \<or> falsy (guests data) \<or> falsy (reservationType data))"

definition emailWellFormed :: "ReservationData \<Rightarrow> bool" where
  "emailWellFormed data = emailRegex_test (toString (email data))"

definition pastDated :: "runtime \<Rightarrow> ReservationData \<Rightarrow> bool" where
  "pastDated rt data =
     (let reservationDate = Date_parse rt (toString (date data));
          today = setHours0 rt (clock rt 0)
      in dateBefore reservationDate today)"

definition validateReservationData :: "runtime \<Rightarrow> ReservationData \<Rightarrow> validation" where
  "validateReservationData rt data =
     (if missingRequired data
      then \<lparr>valid = False,
            v_message = Some ''Missing required fields. Please fill all required information.''\<rparr>
      else if \<not> emailWellFormed data
      then \<lparr>valid = False, v_message = Some ''Invalid email format.''\<rparr>
      else if pastDated rt data
      then \<lparr>valid = False, v_message = Some ''Reservation date cannot be in the past.''\<rparr>
      else \<lparr>valid = True, v_message = None\<rparr>)"

subsection \<open>Responses\<close>

datatype body = Text string | Json "(string \<times> jsval) list"

record response =
  status :: int
  headers :: "(string \<times> string) list"
  body :: body

definition corsHeaders :: "(string \<times> string) list" where
  "corsHeaders =
     [(''Access-Control-Allow-Origin'', ''*''),
      (''Access-Control-Allow-Methods'', ''POST, OPTIONS''),
      (''Access-Control-Allow-Headers'', ''Content-Type, Authorization'')]"

text \<open>The body is kept as the object given to \<^verbatim>\<open>JSON.stringify\<close>, key by key.\<close>

definition createResponse :: "(string \<times> jsval) list \<Rightarrow> int \<Rightarrow> response" where
  "createResponse b st =
     \<lparr>status = st, headers = (''Content-Type'', ''application/json'') # corsHeaders,
      body = Json b\<rparr>"

definition jsOfString :: "string option \<Rightarrow> jsval" where
  "jsOfString v = (case v of None \<Rightarrow> JUndefined | Some s \<Rightarrow> JStr s)"

subsection \<open>The collaborators: storage and e-mail provider\<close>

text \<open>
  Both collaborators are outside the repository. Each is given by its reply to the
  \<open>i\<close>-th call that the handler makes to it while handling one request.
  \<^item> The insert either rejects (the \<^verbatim>\<open>await\<close> throws) or resolves to
    \<^verbatim>\<open>{ data, error }\<close>; of a returned row only \<^verbatim>\<open>id\<close> is read.
  \<^item> The \<^verbatim>\<open>fetch\<close> either rejects, or resolves to a response that is not \<^verbatim>\<open>ok\<close>
    (its \<^verbatim>\<open>text()\<close> may reject too), or resolves to an \<^verbatim>\<open>ok\<close> response whose
    \<^verbatim>\<open>json()\<close> may reject (\<open>Some err\<close>).
\<close>

datatype row = Row (row_id: jsval)

datatype dbReply = DbRejected error | DbReply "row list option" "error option"

datatype fetchReply =
    FetchRejected error
  | RespondedNotOk "error + string"
  | RespondedOk "error option"

record collaborators =
  insertReply :: "nat \<Rightarrow> dbReply"
  fetchReply :: "nat \<Rightarrow> fetchReply"

text \<open>The row given to \<^verbatim>\<open>insert\<close>; \<open>created_at\<close> holds the time value whose ISO string
  the source sends.\<close>

record insertRow =
  col_name :: "string option"
  col_email :: "string option"
  col_date :: "string option"
  col_time :: "string option"
  col_guests :: "string option"
  col_message :: "string option"
  reservation_type :: "string option"
  event_type :: "string option"
  col_attendees :: "string option"
  event_description :: "string option"
  created_at :: int

record emailRequest =
  mail_from :: string
  mail_to :: "string list"
  subject :: string
  html :: string

text \<open>What one request has done to the outside: the rows it sent to the storage, the
  requests it sent to the e-mail provider and the timers it waited for, each in order.\<close>

record world =
  inserts :: "insertRow list"
  fetches :: "emailRequest list"
  waits :: "int list"

definition noEffects :: world where
  "noEffects = \<lparr>inserts = [], fetches = [], waits = []\<rparr>"

fun waitsOf :: "event list \<Rightarrow> int list" where
  "waitsOf [] = []"
| "waitsOf (Invoked # tr) = waitsOf tr"
| "waitsOf (Waited ms # tr) = ms # waitsOf tr"

definition addWaits :: "event list \<Rightarrow> world \<Rightarrow> world" where
  "addWaits tr w = w\<lparr>waits := waits w @ waitsOf tr\<rparr>"

subsection \<open>The two operations that are retried\<close>

text \<open>What the insert closure does with the storage's reply:
  \<^verbatim>\<open>if (error) throw error; return data\<close>.\<close>

definition insertOutcome :: "dbReply \<Rightarrow> error + row list option" where
  "insertOutcome r =
     (case r of
        DbRejected err \<Rightarrow> Inl err
      | DbReply data err \<Rightarrow> (case err of Some e \<Rightarrow> Inl e | None \<Rightarrow> Inr data))"

text \<open>The object given to \<^verbatim>\<open>insert\<close> in the attempt that follows \<open>i\<close> earlier ones.\<close>

definition reservationRow :: "runtime \<Rightarrow> ReservationData \<Rightarrow> nat \<Rightarrow> insertRow" where
  "reservationRow rt reservationData i =
     \<lparr>col_name = name reservationData,
      col_email = email reservationData,
      col_date = date reservationData,
      col_time = time reservationData,
      col_guests = guests reservationData,
      col_message = message reservationData,
      reservation_type = reservationType reservationData,
      event_type = eventType reservationData,
      col_attendees = attendees reservationData,
      event_description = eventDescription reservationData,
      created_at = clock rt (i + 1)\<rparr>"

definition insertReservation ::
  "runtime \<Rightarrow> collaborators \<Rightarrow> ReservationData \<Rightarrow> (world, row list option) operation" where
  "insertReservation rt co reservationData w =
     (let i = length (inserts w)
      in (insertOutcome (insertReply co i),
          w\<lparr>inserts := inserts w @ [reservationRow rt reservationData i]\<rparr>))"

text \<open>What the e-mail closure does with the provider's reply, and whether it reaches
  \<^verbatim>\<open>emailSuccess = true\<close> on the way (the assignment precedes \<^verbatim>\<open>emailResponse.json()\<close>).
  The parsed reply is not used by the handler, so the result is \<open>unit\<close>.\<close>

definition sendOutcome :: "fetchReply \<Rightarrow> error + unit" where
  "sendOutcome r =
     (case r of
        FetchRejected err \<Rightarrow> Inl err
      | RespondedNotOk t \<Rightarrow>
          (case t of
             Inl err \<Rightarrow> Inl err
           | Inr emailError \<Rightarrow> Inl (Error (''Email sending failed: '' @ emailError)))
      | RespondedOk j \<Rightarrow> (case j of Some err \<Rightarrow> Inl err | None \<Rightarrow> Inr ()))"

definition accepted :: "fetchReply \<Rightarrow> bool" where
  "accepted r = (case r of RespondedOk j \<Rightarrow> True | _ \<Rightarrow> False)"

definition sendEmail ::
  "collaborators \<Rightarrow> emailRequest \<Rightarrow> (world \<times> bool, unit) operation" where
  "sendEmail co request = (\<lambda>(w, emailSuccess).
     (let i = length (fetches w);
          r = fetchReply co i
      in (sendOutcome r,
          (w\<lparr>fetches := fetches w @ [request]\<rparr>, emailSuccess \<or> accepted r))))"

subsection \<open>The e-mail\<close>

definition nl :: string where
  "nl = [CHR 0x0A]"

definition emailCore :: "ReservationData \<Rightarrow> string" where
  "emailCore reservationData =
     nl @ ''      <h1>Nueva Reserva</h1>'' @
     nl @ ''      <p><strong>Nombre:</strong> '' @ toString (name reservationData) @ ''</p>'' @
     nl @ ''      <p><strong>Correo:</strong> '' @ toString (email reservationData) @ ''</p>'' @
     nl @ ''      <p><strong>Fecha:</strong> '' @ toString (date reservationData) @ ''</p>'' @
     nl @ ''      <p><strong>Hora:</strong> '' @ toString (time reservationData) @ ''</p>'' @
     nl @ ''      <p><strong>Invitados:</strong> '' @ toString (guests reservationData) @ ''</p>'' @
     nl @ ''      <p><strong>Mensaje:</strong> '' @ orNA (message reservationData) @ ''</p>'' @
     nl @ ''    ''"

definition eventTypeLine :: "ReservationData \<Rightarrow> string" where
  "eventTypeLine reservationData =
     ''<p><strong>Tipo de Evento:</strong> '' @ toString (eventType reservationData) @ ''</p>''"

definition attendeesLine :: "ReservationData \<Rightarrow> string" where
  "attendeesLine reservationData =
     ''<p><strong>Cantidad de Asistentes:</strong> '' @ toString (attendees reservationData)
       @ ''</p>''"

definition eventDescriptionLine :: "ReservationData \<Rightarrow> string" where
  "eventDescriptionLine reservationData =
     ''<p><strong>Descripci'' @ [CHR 0xF3] @ ''n del Evento:</strong> ''
       @ orNA (eventDescription reservationData) @ ''</p>''"

definition eventBlock :: "ReservationData \<Rightarrow> string" where
  "eventBlock reservationData =
     nl @ ''        <h2>Detalles del Evento</h2>'' @
     nl @ ''        '' @ eventTypeLine reservationData @
     nl @ ''        '' @ attendeesLine reservationData @
     nl @ ''        '' @ eventDescriptionLine reservationData @
     nl @ ''      ''"

definition emailContent :: "ReservationData \<Rightarrow> string" where
  "emailContent reservationData =
     (if reservationType reservationData = Some ''event''
      then emailCore reservationData @ eventBlock reservationData
      else emailCore reservationData)"

definition adminEmail :: string where
  "adminEmail = ''restaurantdejorgitoadm@gmail.com''"

definition emailRequestFor :: "ReservationData \<Rightarrow> emailRequest" where
  "emailRequestFor reservationData =
     \<lparr>mail_from = ''Restaurant - El Rinc'' @ [CHR 0xF3]
                     @ ''n de Jorgito <restaurantdejorgitoadm@gmail.com>'',
      mail_to = [adminEmail, toString (email reservationData)],
      subject = ''Nueva Reserva: '' @ toString (name reservationData),
      html = emailContent reservationData\<rparr>"

subsection \<open>The handler\<close>

text \<open>
  A request is its method and what \<^verbatim>\<open>req.json()\<close> resolves to, read at the type
  \<^verbatim>\<open>ReservationData\<close> that the source gives it (\<open>None\<close>: the body is not JSON and
  \<^verbatim>\<open>req.json()\<close> rejects). The handler returns its response and what it has done to the
  outside. Within this model no step throws outside the inner \<^verbatim>\<open>try\<close> blocks, so the
  outermost \<^verbatim>\<open>catch\<close> has no branch of its own. The settings read from the environment
  (storage address and keys, provider key) only configure the collaborators and are not
  modelled; of the response to \<^verbatim>\<open>OPTIONS\<close> the headers are those the source passes.
\<close>

record request =
  req_method :: string
  json :: "ReservationData option"

text \<open>\<^verbatim>\<open>dbResult?.[0]?.id || null\<close>.\<close>

definition reservationIdOf :: "row list option \<Rightarrow> jsval" where
  "reservationIdOf dbResult =
     (case dbResult of
        None \<Rightarrow> JNull
      | Some [] \<Rightarrow> JNull
      | Some (r # rs) \<Rightarrow> (if truthy (row_id r) then row_id r else JNull))"

definition serve :: "runtime \<Rightarrow> collaborators \<Rightarrow> request \<Rightarrow> response \<times> world" where
  "serve rt co req =
     (if req_method req = ''OPTIONS'' then
        (\<lparr>status = 200, headers = corsHeaders, body = Text ''ok''\<rparr>, noEffects)
      else if req_method req \<noteq> ''POST'' then
        (createResponse [(''error'', JStr ''Method not allowed'')] 405, noEffects)
      else
        (case json req of
           None \<Rightarrow>
             (createResponse
                [(''error'', JStr ''Invalid request format''),
                 (''details'', JStr ''Could not parse JSON body'')] 400,
              noEffects)
         | Some reservationData \<Rightarrow>
             (let validation = validateReservationData rt reservationData in
              if \<not> valid validation then
                (createResponse
                   [(''error'', JStr ''Validation error''),
                    (''message'', jsOfString (v_message validation))] 400,
                 noEffects)
              else
                (case retryOperation (insertReservation rt co reservationData)
                        MAX_RETRIES RETRY_DELAY noEffects of
                   (Inl err, w1, tr1) \<Rightarrow>
                     (createResponse
                        [(''error'', JStr ''Database error''),
                         (''message'', JStr (''We could not save your reservation. ''
                            @ ''Please try again later or contact us directly.'')),
                         (''details'', JStr (error_message err))] 500,
                      addWaits tr1 w1)
                 | (Inr dbResult, w1, tr1) \<Rightarrow>
                     (case retryOperation (sendEmail co (emailRequestFor reservationData))
                             MAX_RETRIES RETRY_DELAY (addWaits tr1 w1, False) of
                        (sent, (w2, emailSuccess), tr2) \<Rightarrow>
                          (createResponse
                             [(''success'', JBool True),
                              (''message'', JStr ''Reservation submitted successfully''),
                              (''emailSent'', JBool emailSuccess),
                              (''reservationId'', reservationIdOf dbResult),
                              (''emailNote'',
                               if emailSuccess then JNull
                               else JStr (''Confirmation email could not be sent, ''
                                  @ ''but your reservation has been registered.''))] 200,
                           addWaits tr2 w2))))))"

subsection \<open>Sample inputs\<close>

text \<open>Concrete inputs at which the theorems below are instantiated. The sample clock starts
  at 2026-11-02T15:00:00Z; \<open>westRuntime\<close> is the same instant seen five hours west of UTC.\<close>

definition sampleRuntime :: runtime where
  "sampleRuntime =
     \<lparr>clock = (\<lambda>k. 1793631600000 + 1000 * int k), localTZA = 0, parseOther = (\<lambda>s. None)\<rparr>"

definition westRuntime :: runtime where
  "westRuntime = sampleRuntime\<lparr>localTZA := - 18000000\<rparr>"

definition sampleTable :: ReservationData where
  "sampleTable =
     \<lparr>name = Some ''Ana'', email = Some ''ana@example.com'', date = Some ''2026-11-02'',
      time = Some ''19:30'', guests = Some ''4'', message = None,
      reservationType = Some ''table'', eventType = None, attendees = None,
      eventDescription = None\<rparr>"

definition sampleEvent :: ReservationData where
  "sampleEvent = sampleTable\<lparr>reservationType := Some ''event''\<rparr>"

definition sampleCollaborators :: collaborators where
  "sampleCollaborators =
     \<lparr>insertReply = (\<lambda>i. DbReply (Some [Row (JNum 7)]) None),
      fetchReply = (\<lambda>i. RespondedOk None)\<rparr>"





section \<open>Supporting facts\<close>

subsection \<open>Facts about the retry loop\<close>

lemma retryLoop_exhausted:
  "\<not> attempt < maxRetries \<Longrightarrow>
   retryLoop operation maxRetries delay attempt (Some err) s tr = (Inl err, s, tr)"
  by (simp add: retryLoop.simps)

lemma retryLoop_success:
  "attempt < maxRetries \<Longrightarrow> operation s = (Inr v, s') \<Longrightarrow>
   retryLoop operation maxRetries delay attempt lastError s tr = (Inr v, s', tr @ [Invoked])"
  by (subst retryLoop.simps) simp

lemma retryLoop_failure_more:
  "attempt < maxRetries - 1 \<Longrightarrow> operation s = (Inl err, s') \<Longrightarrow>
   retryLoop operation maxRetries delay attempt lastError s tr =
   retryLoop operation maxRetries delay (attempt + 1) (Some err) s'
     (tr @ [Invoked, Waited (delay * (attempt + 1))])"
  by (subst retryLoop.simps) simp

lemma retryLoop_failure_last:
  "attempt < maxRetries \<Longrightarrow> \<not> attempt < maxRetries - 1 \<Longrightarrow> operation s = (Inl err, s') \<Longrightarrow>
   retryLoop operation maxRetries delay attempt lastError s tr = (Inl err, s', tr @ [Invoked])"
  by (subst retryLoop.simps) (simp add: retryLoop_exhausted)

lemma retryOperation_three:
  "retryOperation operation 3 delay s =
     (case operation s of
        (Inr v, s1) \<Rightarrow> (Inr v, s1, [Invoked])
      | (Inl e1, s1) \<Rightarrow>
          (case operation s1 of
             (Inr v, s2) \<Rightarrow> (Inr v, s2, [Invoked, Waited (delay * 1), Invoked])
           | (Inl e2, s2) \<Rightarrow>
               (case operation s2 of
                  (Inr v, s3) \<Rightarrow>
                    (Inr v, s3, [Invoked, Waited (delay * 1), Invoked, Waited (delay * 2), Invoked])
                | (Inl e3, s3) \<Rightarrow>
                    (Inl e3, s3, [Invoked, Waited (delay * 1), Invoked, Waited (delay * 2), Invoked]))))"
  by (simp add: retryOperation_def retryLoop_failure_more retryLoop_failure_last
      retryLoop_success split: prod.splits sum.splits)

subsection \<open>The two retried phases of the handler\<close>

lemma insertReservation_at:
  "insertReservation rt co d w =
     (insertOutcome (insertReply co (length (inserts w))),
      w\<lparr>inserts := inserts w @ [reservationRow rt d (length (inserts w))]\<rparr>)"
  by (simp add: insertReservation_def Let_def)

lemma world_simps [simp]:
  "inserts (addWaits tr w) = inserts w"
  "fetches (addWaits tr w) = fetches w"
  "inserts noEffects = []"
  "fetches noEffects = []"
  by (simp_all add: addWaits_def noEffects_def)



lemma sendEmail_at:
  "sendEmail co request (w, b) =
     (sendOutcome (fetchReply co (length (fetches w))),
      (w\<lparr>fetches := fetches w @ [request]\<rparr>, b \<or> accepted (fetchReply co (length (fetches w)))))"
  by (simp add: sendEmail_def Let_def)

lemma insert_phase_success:
  assumes "k < 3"
    and "\<forall>i<k. isl (insertOutcome (insertReply co i))"
    and "insertOutcome (insertReply co k) = Inr dbResult"
  shows "\<exists>w1 tr1. retryOperation (insertReservation rt co d) MAX_RETRIES RETRY_DELAY noEffects
            = (Inr dbResult, w1, tr1)
          \<and> fetches w1 = [] \<and> length (inserts w1) = k + 1"
proof -
  from assms(1) have "k = 0 \<or> k = Suc 0 \<or> k = 2" by arith
  then show ?thesis
  proof (elim disjE)
    assume "k = 0"
    with assms show ?thesis
      by (simp add: MAX_RETRIES_def retryOperation_three insertReservation_at)
  next
    assume k: "k = Suc 0"
    with assms(2) have "isl (insertOutcome (insertReply co 0))" by simp
    then obtain e0 where "insertOutcome (insertReply co 0) = Inl e0"
      by (auto simp: isl_def)
    with k assms(3) show ?thesis
      by (simp add: MAX_RETRIES_def retryOperation_three insertReservation_at)
  next
    assume k: "k = 2"
    with assms(2) have "isl (insertOutcome (insertReply co 0))"
      "isl (insertOutcome (insertReply co (Suc 0)))" by simp_all
    then obtain e0 e1 where "insertOutcome (insertReply co 0) = Inl e0"
      "insertOutcome (insertReply co (Suc 0)) = Inl e1"
      by (auto simp: isl_def)
    with k assms(3) show ?thesis
      by (simp add: MAX_RETRIES_def retryOperation_three insertReservation_at numeral_2_eq_2)
  qed
qed





subsection \<open>Unfolding the handler\<close>

lemma valid_iff:
  "valid (validateReservationData rt d) \<longleftrightarrow>
     \<not> missingRequired d \<and> emailWellFormed d \<and> \<not> pastDated rt d"
  by (simp add: validateReservationData_def)


lemma serve_valid:
  assumes "req_method req = ''POST''" and "json req = Some d"
    and "valid (validateReservationData rt d)"
  shows "serve rt co req =
     (case retryOperation (insertReservation rt co d) MAX_RETRIES RETRY_DELAY noEffects of
        (Inl err, w1, tr1) \<Rightarrow>
          (createResponse
             [(''error'', JStr ''Database error''),
              (''message'', JStr (''We could not save your reservation. ''
                 @ ''Please try again later or contact us directly.'')),
              (''details'', JStr (error_message err))] 500,
           addWaits tr1 w1)
      | (Inr dbResult, w1, tr1) \<Rightarrow>
          (case retryOperation (sendEmail co (emailRequestFor d))
                  MAX_RETRIES RETRY_DELAY (addWaits tr1 w1, False) of
             (sent, (w2, emailSuccess), tr2) \<Rightarrow>
               (createResponse
                  [(''success'', JBool True),
                   (''message'', JStr ''Reservation submitted successfully''),
                   (''emailSent'', JBool emailSuccess),
                   (''reservationId'', reservationIdOf dbResult),
                   (''emailNote'',
                    if emailSuccess then JNull
                    else JStr (''Confirmation email could not be sent, ''
                       @ ''but your reservation has been registered.''))] 200,
                addWaits tr2 w2)))"
  using assms by (simp add: serve_def)


lemma insert_phase_rows:
  assumes "retryOperation (insertReservation rt co d) MAX_RETRIES RETRY_DELAY noEffects
             = (r, w1, tr1)"
  shows "inserts w1 \<noteq> [] \<and> set (inserts w1) \<subseteq> range (reservationRow rt d) \<and> fetches w1 = []"
  using assms
  by (auto simp: MAX_RETRIES_def retryOperation_three insertReservation_at
      split: sum.splits)

lemma email_phase_effects:
  assumes "retryOperation (sendEmail co request) MAX_RETRIES RETRY_DELAY (w, b)
             = (r, (w2, b2), tr2)"
  shows "inserts w2 = inserts w \<and> fetches w2 \<noteq> [] \<and> set (fetches w2) \<subseteq> set (fetches w) \<union> {request}"
  using assms
  by (auto simp: MAX_RETRIES_def retryOperation_three sendEmail_at
      split: sum.splits)

lemma serve_valid_inserts:
  assumes "req_method req = ''POST''" and "json req = Some d"
    and "valid (validateReservationData rt d)"
  shows "inserts (snd (serve rt co req)) \<noteq> []
         \<and> set (inserts (snd (serve rt co req))) \<subseteq> range (reservationRow rt d)"
proof -
  obtain r w1 tr1 where ins:
    "retryOperation (insertReservation rt co d) MAX_RETRIES RETRY_DELAY noEffects = (r, w1, tr1)"
    by (metis prod_cases3)
  note rows = insert_phase_rows [OF ins]
  show ?thesis
  proof (cases r)
    case (Inl err)
    with ins rows show ?thesis
      by (simp add: serve_valid [OF assms])
  next
    case (Inr dbResult)
    obtain sent w2 b2 tr2 where em:
      "retryOperation (sendEmail co (emailRequestFor d)) MAX_RETRIES RETRY_DELAY
         (addWaits tr1 w1, False) = (sent, (w2, b2), tr2)"
      by (metis prod_cases3 surj_pair)
    from email_phase_effects [OF em] rows ins Inr em show ?thesis
      by (simp add: serve_valid [OF assms])
  qed
qed


subsection \<open>The date check\<close>

lemma div_less_iff_int:
  fixes x M D :: int
  assumes "0 < M"
  shows "x div M < D \<longleftrightarrow> x < D * M"
proof -
  have "(x - D * M) div M = x div M - D"
    using assms div_mult_self1 [of M x "- D"] by simp
  moreover have "(x - D * M) div M < 0 \<longleftrightarrow> x - D * M < 0"
    using assms by (rule pos_imp_zdiv_neg_iff)
  ultimately show ?thesis by auto
qed

lemma pastDated_local_day:
  "pastDated rt d \<longleftrightarrow>
     (\<exists>t. Date_parse rt (toString (date d)) = Some t
          \<and> Day (LocalTime rt t) < Day (LocalTime rt (clock rt 0)))"
proof -
  have "t < Day (LocalTime rt (clock rt 0)) * msPerDay - localTZA rt
          \<longleftrightarrow> Day (LocalTime rt t) < Day (LocalTime rt (clock rt 0))" for t
    using div_less_iff_int [of msPerDay "t + localTZA rt" "Day (LocalTime rt (clock rt 0))"]
    by (auto simp: Day_def LocalTime_def msPerDay_def)
  then show ?thesis
    by (cases "Date_parse rt (toString (date d))")
       (simp_all add: pastDated_def dateBefore_def setHours0_def UTC_def Let_def)
qed

lemma pastDated_iso:
  assumes "date d = Some s" and "isoDateOnly s = Some (y, m, dd)"
  shows "pastDated rt d \<longleftrightarrow>
           MakeDay y (m - 1) dd * msPerDay
             < Day (LocalTime rt (clock rt 0)) * msPerDay - localTZA rt"
  using assms
  by (simp add: pastDated_def Date_parse_def toString_def dateBefore_def setHours0_def
      UTC_def Let_def)


subsection \<open>The e-mail body\<close>

lemma emailCore_event_block:
  "emailCore d @ eventBlock d =
     (emailCore d @ nl @ ''        <h2>Detalles del Evento</h2>'' @ nl @ ''        '')
       @ eventTypeLine d @ (nl @ ''        '' @ attendeesLine d @ nl @ ''        ''
       @ eventDescriptionLine d @ nl @ ''      '')"
  "emailCore d @ eventBlock d =
     (emailCore d @ nl @ ''        <h2>Detalles del Evento</h2>'' @ nl @ ''        ''
       @ eventTypeLine d @ nl @ ''        '')
       @ attendeesLine d @ (nl @ ''        '' @ eventDescriptionLine d @ nl @ ''      '')"
  "emailCore d @ eventBlock d =
     (emailCore d @ nl @ ''        <h2>Detalles del Evento</h2>'' @ nl @ ''        ''
       @ eventTypeLine d @ nl @ ''        '' @ attendeesLine d @ nl @ ''        '')
       @ eventDescriptionLine d @ (nl @ ''      '')"
  by (simp_all add: eventBlock_def)

lemma event_lines_in_block:
  "sublist (eventTypeLine d) (emailCore d @ eventBlock d)"
  "sublist (attendeesLine d) (emailCore d @ eventBlock d)"
  "sublist (eventDescriptionLine d) (emailCore d @ eventBlock d)"
  by (subst emailCore_event_block, rule sublist_appendI)+

subsection \<open>Validation ignores the event fields\<close>

lemma validate_ignores_event_fields:
  "validateReservationData rt (d\<lparr>eventType := a\<rparr>) = validateReservationData rt d"
  "validateReservationData rt (d\<lparr>attendees := b\<rparr>) = validateReservationData rt d"
  "validateReservationData rt (d\<lparr>eventDescription := c\<rparr>) = validateReservationData rt d"
  by (simp_all add: validateReservationData_def missingRequired_def emailWellFormed_def
      pastDated_def)

subsection \<open>Day numbers and calendar order\<close>

text \<open>The day number \<open>MakeDay\<close> orders the dates that \<open>isoDateOnly\<close> accepts as the
  calendar does; this is what lets the theorems on the date check compare day numbers.\<close>

lemma div_step:
  fixes a c :: int
  assumes "0 < c"
  shows "(a + 1) div c = a div c + (if (a + 1) mod c = 0 then 1 else 0)"
proof -
  let ?q = "a div c" and ?r = "a mod c"
  have a: "a = c * ?q + ?r" "0 \<le> ?r" "?r < c"
    using assms by simp_all
  show ?thesis
  proof (cases "?r + 1 = c")
    case True
    have "a + 1 = c * ?q + (?r + 1)" using a(1) by linarith
    also have "\<dots> = c * (?q + 1) + 0" using True by (simp add: algebra_simps)
    finally have eq: "a + 1 = c * (?q + 1) + 0" .
    have d: "(a + 1) div c = ?q + 1"
      using eq _ assms by (rule int_div_pos_eq) simp
    have m: "(a + 1) mod c = 0"
      using eq _ assms by (rule int_mod_pos_eq) simp
    show ?thesis unfolding d m by simp
  next
    case False
    have eq: "a + 1 = c * ?q + (?r + 1)" using a(1) by linarith
    have b: "0 \<le> ?r + 1" "?r + 1 < c" using a(2,3) False by linarith+
    have d: "(a + 1) div c = ?q"
      using eq b by (rule int_div_pos_eq)
    have m: "(a + 1) mod c = ?r + 1"
      using eq b by (rule int_mod_pos_eq)
    have "?r + 1 \<noteq> 0" using a(2) by linarith
    then show ?thesis unfolding d m by simp
  qed
qed

lemma leap_divisibility:
  fixes y :: int
  shows "y mod 100 = 0 \<Longrightarrow> y mod 4 = 0" and "y mod 400 = 0 \<Longrightarrow> y mod 100 = 0"
proof -
  have "(4::int) dvd 100" "(100::int) dvd 400" by simp_all
  then show "y mod 100 = 0 \<Longrightarrow> y mod 4 = 0" and "y mod 400 = 0 \<Longrightarrow> y mod 100 = 0"
    by (auto simp: mod_eq_0_iff_dvd elim: dvd_trans)
qed

lemma DayFromYear_next: "DayFromYear (y + 1) = DayFromYear y + DaysInYear y"
proof -
  have m4: "(y - 1969 + 1) mod 4 = y mod 4"
    using mod_mult_self2 [of y 4 "- 492"] by simp
  have m100: "(y - 1901 + 1) mod 100 = y mod 100"
    using mod_mult_self2 [of y 100 "- 19"] by simp
  have m400: "(y - 1601 + 1) mod 400 = y mod 400"
    using mod_mult_self2 [of y 400 "- 4"] by simp
  have s4: "(y + 1 - 1969) div 4 = (y - 1969) div 4 + (if y mod 4 = 0 then 1 else 0)"
    using div_step [of 4 "y - 1969"] m4 by (simp add: algebra_simps)
  have s100: "(y + 1 - 1901) div 100 = (y - 1901) div 100 + (if y mod 100 = 0 then 1 else 0)"
    using div_step [of 100 "y - 1901"] m100 by (simp add: algebra_simps)
  have s400: "(y + 1 - 1601) div 400 = (y - 1601) div 400 + (if y mod 400 = 0 then 1 else 0)"
    using div_step [of 400 "y - 1601"] m400 by (simp add: algebra_simps)
  show ?thesis
    unfolding DayFromYear_def DaysInYear_def s4 s100 s400
    using leap_divisibility [of y] by auto
qed

lemma DaysInYear_bounds: "365 \<le> DaysInYear y" "DaysInYear y \<le> 366"
  by (simp_all add: DaysInYear_def)

lemma DayFromYear_later:
  assumes "y < y'"
  shows "DayFromYear y + DaysInYear y \<le> DayFromYear y'"
proof -
  from assms have "y + 1 \<le> y'" by simp
  then show ?thesis
  proof (induction y' rule: int_ge_induct)
    case base
    show ?case by (simp add: DayFromYear_next)
  next
    case (step i)
    with DayFromYear_next [of i] DaysInYear_bounds(1) [of i] show ?case by linarith
  qed
qed

lemma month_cases:
  fixes m :: int
  assumes "0 \<le> m" and "m < 12"
  shows "m = 0 \<or> m = 1 \<or> m = 2 \<or> m = 3 \<or> m = 4 \<or> m = 5 \<or> m = 6 \<or> m = 7 \<or> m = 8
         \<or> m = 9 \<or> m = 10 \<or> m = 11"
  using assms by arith

lemma DayWithinYear_next:
  assumes "0 \<le> m" and "m < 12"
  shows "DayWithinYear y m + DaysInMonth y m =
           (if m = 11 then DaysInYear y else DayWithinYear y (m + 1))"
  using month_cases [OF assms] DaysInYear_bounds [of y]
  by (elim disjE) (simp_all add: DayWithinYear_def DaysInMonth_def)

lemma DaysInMonth_pos:
  assumes "0 \<le> m" and "m < 12"
  shows "28 \<le> DaysInMonth y m"
  using month_cases [OF assms] DaysInYear_bounds [of y]
  by (elim disjE) (simp_all add: DaysInMonth_def)

lemma DayWithinYear_nonneg:
  assumes "0 \<le> m" and "m < 12"
  shows "0 \<le> DayWithinYear y m"
  using month_cases [OF assms] DaysInYear_bounds [of y]
  by (elim disjE) (simp_all add: DayWithinYear_def)

lemma DayWithinYear_later:
  assumes "0 \<le> m" and "m < m'" and "m' < 12"
  shows "DayWithinYear y m + DaysInMonth y m \<le> DayWithinYear y m'"
proof -
  from assms have "m + 1 \<le> m'" by simp
  then show ?thesis using assms(1,3)
  proof (induction m' rule: int_ge_induct)
    case base
    then show ?case by (simp add: DayWithinYear_next)
  next
    case (step i)
    then have "DayWithinYear y m + DaysInMonth y m \<le> DayWithinYear y i" by simp
    moreover have "DayWithinYear y i + DaysInMonth y i = DayWithinYear y (i + 1)"
      using step by (simp add: DayWithinYear_next)
    moreover have "0 \<le> DaysInMonth y i" using DaysInMonth_pos [of i y] step by simp
    ultimately show ?case by linarith
  qed
qed

lemma DayWithinYear_end:
  assumes "0 \<le> m" and "m < 12"
  shows "DayWithinYear y m + DaysInMonth y m \<le> DaysInYear y"
proof (cases "m = 11")
  case True
  then show ?thesis using DayWithinYear_next [OF assms, of y] by simp
next
  case False
  with assms have "m < 11" by simp
  from DayWithinYear_later [OF assms(1) this, of y] DayWithinYear_next [of 11 y]
    DaysInMonth_pos [of 11 y]
  show ?thesis by simp
qed

lemma isoDateOnly_range:
  assumes "isoDateOnly s = Some (y, m, d)"
  shows "1 \<le> m \<and> m \<le> 12 \<and> 1 \<le> d \<and> d \<le> DaysInMonth y (m - 1)"
  using assms
  by (auto simp: isoDateOnly_def split: if_splits option.splits)

lemma MakeDay_strict_mono:
  assumes "1 \<le> m" "m \<le> 12" "1 \<le> d" "d \<le> DaysInMonth y (m - 1)"
    and "1 \<le> m'" "m' \<le> 12" "1 \<le> d'" "d' \<le> DaysInMonth y' (m' - 1)"
    and "y < y' \<or> (y = y' \<and> (m < m' \<or> (m = m' \<and> d < d')))"
  shows "MakeDay y (m - 1) d < MakeDay y' (m' - 1) d'"
proof -
  have r: "0 \<le> m - 1" "m - 1 < 12" "0 \<le> m' - 1" "m' - 1 < 12"
    using assms(1,2,5,6) by simp_all
  consider "y < y'" | "y = y'" "m < m'" | "y = y'" "m = m'" "d < d'"
    using assms(9) by blast
  then show ?thesis
  proof cases
    case 1
    from DayWithinYear_end [OF r(1,2), of y] assms(4)
    have "DayWithinYear y (m - 1) + d \<le> DaysInYear y" by linarith
    moreover from DayFromYear_later [OF 1]
    have "DayFromYear y + DaysInYear y \<le> DayFromYear y'" .
    moreover have "0 \<le> DayWithinYear y' (m' - 1)"
      using DayWithinYear_nonneg [OF r(3,4)] .
    ultimately show ?thesis
      using assms(7) unfolding MakeDay_def by linarith
  next
    case 2
    then have "m - 1 < m' - 1" by simp
    from DayWithinYear_later [OF r(1) this r(4), of y] assms(4,7) 2(1)
    show ?thesis by (simp add: MakeDay_def)
  next
    case 3
    then show ?thesis unfolding MakeDay_def by simp
  qed
qed

lemma MakeDay_order:
  assumes "isoDateOnly s = Some (y, m, d)" and "isoDateOnly s' = Some (y', m', d')"
  shows "MakeDay y (m - 1) d < MakeDay y' (m' - 1) d'
           \<longleftrightarrow> y < y' \<or> (y = y' \<and> (m < m' \<or> (m = m' \<and> d < d')))"
proof
  assume "y < y' \<or> (y = y' \<and> (m < m' \<or> (m = m' \<and> d < d')))"
  with isoDateOnly_range [OF assms(1)] isoDateOnly_range [OF assms(2)]
  show "MakeDay y (m - 1) d < MakeDay y' (m' - 1) d'"
    by (intro MakeDay_strict_mono) simp_all
next
  assume less: "MakeDay y (m - 1) d < MakeDay y' (m' - 1) d'"
  show "y < y' \<or> (y = y' \<and> (m < m' \<or> (m = m' \<and> d < d')))"
  proof (rule ccontr)
    assume "\<not> ?thesis"
    then consider "y = y'" "m = m'" "d = d'"
      | "y' < y \<or> (y' = y \<and> (m' < m \<or> (m' = m \<and> d' < d)))"
      by linarith
    then show False
    proof cases
      case 1
      with less show False by simp
    next
      case 2
      with isoDateOnly_range [OF assms(1)] isoDateOnly_range [OF assms(2)]
      have "MakeDay y' (m' - 1) d' < MakeDay y (m - 1) d"
        by (intro MakeDay_strict_mono) simp_all
      with less show False by simp
    qed
  qed
qed

subsection \<open>The pattern for e-mail addresses\<close>

text \<open>\<open>emailRegex_test\<close> accepts exactly the strings that split as the regular expression
  says: a run of the class, \<^verbatim>\<open>@\<close>, a run of the class, a dot, a run of the class.\<close>

lemma notSpaceAt_chars: "\<not> notSpaceAt CHR ''@''" "notSpaceAt CHR ''.''"
  by (simp_all add: notSpaceAt_def isSpace_def)

lemma emailRegex_test_iff:
  "emailRegex_test s \<longleftrightarrow>
     (\<exists>a b c. s = a @ ''@'' @ b @ ''.'' @ c \<and> a \<noteq> [] \<and> b \<noteq> [] \<and> c \<noteq> []
        \<and> list_all notSpaceAt a \<and> list_all notSpaceAt b \<and> list_all notSpaceAt c)"
proof
  assume t: "emailRegex_test s"
  let ?a = "takeWhile notSpaceAt s"
  from t obtain rest where a: "?a \<noteq> []"
    and d: "dropWhile notSpaceAt s = CHR ''@'' # rest"
    and r: "list_all notSpaceAt rest" and dot: "CHR ''.'' \<in> set (butlast (tl rest))"
    by (auto simp: emailRegex_test_def split: list.splits)
  from dot obtain xs ys where sp: "butlast (tl rest) = xs @ CHR ''.'' # ys"
    by (auto dest: split_list)
  then have ne: "tl rest \<noteq> []" by auto
  then have "rest \<noteq> []" by auto
  then have rest: "rest = (hd rest # xs) @ ''.'' @ (ys @ [last (tl rest)])"
    using sp ne append_butlast_last_id [OF ne] by (cases rest) auto
  have "s = ?a @ ''@'' @ rest"
    using takeWhile_dropWhile_id [of notSpaceAt s] d by simp
  then have "s = ?a @ ''@'' @ (hd rest # xs) @ ''.'' @ (ys @ [last (tl rest)])"
    using rest by simp
  moreover have "list_all notSpaceAt ?a"
    by (simp add: list_all_iff) (meson set_takeWhileD)
  moreover from r rest have "list_all notSpaceAt (hd rest # xs)"
    "list_all notSpaceAt (ys @ [last (tl rest)])"
    by (metis list_all_append)+
  ultimately show "\<exists>a b c. s = a @ ''@'' @ b @ ''.'' @ c \<and> a \<noteq> [] \<and> b \<noteq> [] \<and> c \<noteq> []
        \<and> list_all notSpaceAt a \<and> list_all notSpaceAt b \<and> list_all notSpaceAt c"
    using a by blast
next
  assume "\<exists>a b c. s = a @ ''@'' @ b @ ''.'' @ c \<and> a \<noteq> [] \<and> b \<noteq> [] \<and> c \<noteq> []
        \<and> list_all notSpaceAt a \<and> list_all notSpaceAt b \<and> list_all notSpaceAt c"
  then obtain a b c where s: "s = a @ CHR ''@'' # b @ CHR ''.'' # c"
    and ne: "a \<noteq> []" "b \<noteq> []" "c \<noteq> []"
    and cl: "list_all notSpaceAt a" "list_all notSpaceAt b" "list_all notSpaceAt c"
    by auto
  from cl(1) have tw: "takeWhile notSpaceAt s = a"
    and dw: "dropWhile notSpaceAt s = CHR ''@'' # b @ CHR ''.'' # c"
    unfolding s by (simp_all add: list_all_iff takeWhile_append2 dropWhile_append2
        notSpaceAt_chars)
  from ne(2) obtain b0 b' where b: "b = b0 # b'" by (cases b) auto
  from ne(3) have "butlast (b' @ CHR ''.'' # c) = b' @ CHR ''.'' # butlast c"
    by (simp add: butlast_append)
  then have "CHR ''.'' \<in> set (butlast (tl (b @ CHR ''.'' # c)))"
    using b by simp
  with tw dw ne(1) cl show "emailRegex_test s"
    by (simp add: emailRegex_test_def notSpaceAt_chars)
qed

subsection \<open>The sample inputs\<close>

lemma sample_dates:
  "isoDateOnly ''2026-11-02'' = Some (2026, 11, 2)"
  "isoDateOnly ''2026-11-01'' = Some (2026, 11, 1)"
  "isoDateOnly ''not-a-date'' = None"
  by (simp_all add: isoDateOnly_def decimal_def isDigit_def digitValue_def DaysInMonth_def
      DaysInYear_def)

lemma sample_days:
  "MakeDay 2026 10 2 = 20759"
  "MakeDay 2026 10 1 = 20758"
  "Day (LocalTime sampleRuntime (clock sampleRuntime 0)) = 20759"
  "Day (LocalTime westRuntime (clock westRuntime 0)) = 20759"
  by (simp_all add: MakeDay_def DayFromYear_def DayWithinYear_def DaysInYear_def Day_def
      LocalTime_def msPerDay_def sampleRuntime_def westRuntime_def)

lemma sample_email: "emailRegex_test ''ana@example.com''"
  by (simp add: emailRegex_test_def notSpaceAt_def isSpace_def)

lemma sample_checks:
  "\<not> missingRequired sampleTable" "emailWellFormed sampleTable"
  "\<not> missingRequired sampleEvent" "emailWellFormed sampleEvent"
  by (simp_all add: missingRequired_def emailWellFormed_def sampleTable_def sampleEvent_def
      falsy_def toString_def sample_email)

lemma sample_not_past:
  "\<not> pastDated sampleRuntime sampleTable" "\<not> pastDated sampleRuntime sampleEvent"
  by (simp_all add: pastDated_iso [of _ "''2026-11-02''" 2026 11 2] sample_dates sample_days
      sampleTable_def sampleEvent_def)
     (simp_all add: sampleRuntime_def)

lemma sample_valid:
  "valid (validateReservationData sampleRuntime sampleTable)"
  "valid (validateReservationData sampleRuntime sampleEvent)"
  by (simp_all add: valid_iff sample_checks sample_not_past)

section \<open>The claims\<close>

















text \<open>
  C8. For every valid payload that reaches the e-mail step (its insert has succeeded),
  every request sent to the provider carries the generated HTML body. When
  \<^verbatim>\<open>reservationType\<close> is \<^verbatim>\<open>"event"\<close> that body is the core block followed by the event
  block and contains the lines for the event type, the number of attendees and the event
  description; otherwise, in particular for \<^verbatim>\<open>"table"\<close>, it is the core block alone.
\<close>

theorem C8_email_body:
  assumes "req_method req = ''POST''" and "json req = Some d"
    and "valid (validateReservationData rt d)"
    and "k < 3"
    and "\<forall>i<k. isl (insertOutcome (insertReply co i))"
    and "insertOutcome (insertReply co k) = Inr dbResult"
  shows "fetches (snd (serve rt co req)) \<noteq> []
         \<and> (\<forall>m \<in> set (fetches (snd (serve rt co req))). html m = emailContent d)
         \<and> (reservationType d = Some ''event'' \<longrightarrow>
              emailContent d = emailCore d @ eventBlock d
              \<and> sublist (''<p><strong>Tipo de Evento:</strong> '' @ toString (eventType d)
                          @ ''</p>'') (emailContent d)
              \<and> sublist (''<p><strong>Cantidad de Asistentes:</strong> ''
                          @ toString (attendees d) @ ''</p>'') (emailContent d)
              \<and> sublist (''<p><strong>Descripci'' @ [CHR 0xF3] @ ''n del Evento:</strong> ''
                          @ orNA (eventDescription d) @ ''</p>'') (emailContent d))
         \<and> (reservationType d \<noteq> Some ''event'' \<longrightarrow> emailContent d = emailCore d)"
proof -
  from insert_phase_success [OF assms(4-6)]
  obtain w1 tr1 where ins:
    "retryOperation (insertReservation rt co d) MAX_RETRIES RETRY_DELAY noEffects
       = (Inr dbResult, w1, tr1)" "fetches w1 = []"
    by blast
  obtain sent w2 b2 tr2 where em:
    "retryOperation (sendEmail co (emailRequestFor d)) MAX_RETRIES RETRY_DELAY
       (addWaits tr1 w1, False) = (sent, (w2, b2), tr2)"
    by (metis prod_cases3 surj_pair)
  from email_phase_effects [OF em] ins(2)
  have "fetches w2 \<noteq> []" "set (fetches w2) \<subseteq> {emailRequestFor d}" by simp_all
  with ins em have sentMails: "fetches (snd (serve rt co req)) \<noteq> []"
    "\<forall>m \<in> set (fetches (snd (serve rt co req))). html m = emailContent d"
    by (auto simp: serve_valid [OF assms(1-3)] emailRequestFor_def)
  have ev: "reservationType d = Some ''event'' \<Longrightarrow> emailContent d = emailCore d @ eventBlock d"
    and tb: "reservationType d \<noteq> Some ''event'' \<Longrightarrow> emailContent d = emailCore d"
    by (simp_all add: emailContent_def)
  from event_lines_in_block [of d] sentMails ev tb show ?thesis
    by (simp add: eventTypeLine_def attendeesLine_def eventDescriptionLine_def)
qed

text \<open>C8 at an event reservation with details and at the sample table reservation.\<close>

theorem C8_email_body_witness:
  "sublist ''<p><strong>Tipo de Evento:</strong> wedding</p>''
     (html (hd (fetches (snd (serve sampleRuntime sampleCollaborators
        \<lparr>req_method = ''POST'',
         json = Some (sampleEvent\<lparr>eventType := Some ''wedding'', attendees := Some ''40''\<rparr>)\<rparr>)))))
   \<and> sublist ''<p><strong>Cantidad de Asistentes:</strong> 40</p>''
     (html (hd (fetches (snd (serve sampleRuntime sampleCollaborators
        \<lparr>req_method = ''POST'',
         json = Some (sampleEvent\<lparr>eventType := Some ''wedding'', attendees := Some ''40''\<rparr>)\<rparr>)))))
   \<and> html (hd (fetches (snd (serve sampleRuntime sampleCollaborators
        \<lparr>req_method = ''POST'', json = Some sampleTable\<rparr>)))) = emailCore sampleTable"
proof -
  let ?ev = "sampleEvent\<lparr>eventType := Some ''wedding'', attendees := Some ''40''\<rparr>"
  let ?w1 = "snd (serve sampleRuntime sampleCollaborators
                \<lparr>req_method = ''POST'', json = Some ?ev\<rparr>)"
  let ?w2 = "snd (serve sampleRuntime sampleCollaborators
                \<lparr>req_method = ''POST'', json = Some sampleTable\<rparr>)"
  have v: "valid (validateReservationData sampleRuntime ?ev)"
    using sample_valid(2) by (simp add: validate_ignores_event_fields)
  have ok: "insertOutcome (insertReply sampleCollaborators 0) = Inr (Some [Row (JNum 7)])"
    by (simp add: sampleCollaborators_def insertOutcome_def)
  have kind: "reservationType ?ev = Some ''event''" "toString (eventType ?ev) = ''wedding''"
    "toString (attendees ?ev) = ''40''" "reservationType sampleTable \<noteq> Some ''event''"
    by (simp_all add: sampleEvent_def sampleTable_def toString_def)
  have first: "(0::nat) < 3" "\<forall>i<(0::nat). isl (insertOutcome (insertReply sampleCollaborators i))"
    by simp_all
  have r1: "req_method \<lparr>req_method = ''POST'', json = Some ?ev\<rparr> = ''POST''"
    "json \<lparr>req_method = ''POST'', json = Some ?ev\<rparr> = Some ?ev"
    by simp_all
  have r2: "req_method \<lparr>req_method = ''POST'', json = Some sampleTable\<rparr> = ''POST''"
    "json \<lparr>req_method = ''POST'', json = Some sampleTable\<rparr> = Some sampleTable"
    by simp_all
  from C8_email_body [OF r1 v first ok] kind(1)
  have raw: "fetches ?w1 \<noteq> []" "\<forall>m \<in> set (fetches ?w1). html m = emailContent ?ev"
    "sublist (''<p><strong>Tipo de Evento:</strong> '' @ toString (eventType ?ev) @ ''</p>'')
       (emailContent ?ev)"
    "sublist (''<p><strong>Cantidad de Asistentes:</strong> '' @ toString (attendees ?ev)
       @ ''</p>'') (emailContent ?ev)"
    by blast+
  from raw(3,4) have ev:
    "sublist ''<p><strong>Tipo de Evento:</strong> wedding</p>'' (emailContent ?ev)"
    "sublist ''<p><strong>Cantidad de Asistentes:</strong> 40</p>'' (emailContent ?ev)"
    by (simp_all only: kind(2,3) append.simps)
  from C8_email_body [OF r2 sample_valid(1) first ok] kind(4)
  have tb: "fetches ?w2 \<noteq> []" "\<forall>m \<in> set (fetches ?w2). html m = emailContent sampleTable"
    "emailContent sampleTable = emailCore sampleTable"
    by blast+
  from raw(1,2) have "html (hd (fetches ?w1)) = emailContent ?ev"
    using hd_in_set by blast
  moreover from tb have "html (hd (fetches ?w2)) = emailCore sampleTable"
    using hd_in_set by fastforce
  ultimately show ?thesis using ev by simp
qed

text \<open>
  C9, amended. An \<^verbatim>\<open>OPTIONS\<close> request is answered with status 200, the CORS headers and
  the body \<^verbatim>\<open>ok\<close> (a two-character text, not an empty body), whatever the request body
  holds, and without any call to the storage or the e-mail provider; every request whose
  method is neither \<^verbatim>\<open>OPTIONS\<close> nor \<^verbatim>\<open>POST\<close> is answered with 405 and the body
  \<^verbatim>\<open>{error: "Method not allowed"}\<close>.
\<close>

theorem C9_method_gate:
  "(req_method req = ''OPTIONS'' \<longrightarrow>
      fst (serve rt co req) = \<lparr>status = 200, headers = corsHeaders, body = Text ''ok''\<rparr>
      \<and> inserts (snd (serve rt co req)) = [] \<and> fetches (snd (serve rt co req)) = [])
   \<and> (req_method req \<noteq> ''OPTIONS'' \<and> req_method req \<noteq> ''POST'' \<longrightarrow>
      fst (serve rt co req) = createResponse [(''error'', JStr ''Method not allowed'')] 405)"
  by (simp add: serve_def)

text \<open>C9 at an \<^verbatim>\<open>OPTIONS\<close> request that carries a reservation and at a \<^verbatim>\<open>GET\<close> request.\<close>

theorem C9_method_gate_witness:
  "fst (serve sampleRuntime sampleCollaborators \<lparr>req_method = ''OPTIONS'', json = Some sampleTable\<rparr>)
     = \<lparr>status = 200, headers = corsHeaders, body = Text ''ok''\<rparr>
   \<and> inserts (snd (serve sampleRuntime sampleCollaborators
                      \<lparr>req_method = ''OPTIONS'', json = Some sampleTable\<rparr>)) = []
   \<and> fetches (snd (serve sampleRuntime sampleCollaborators
                      \<lparr>req_method = ''OPTIONS'', json = Some sampleTable\<rparr>)) = []
   \<and> fst (serve sampleRuntime sampleCollaborators \<lparr>req_method = ''GET'', json = None\<rparr>)
     = createResponse [(''error'', JStr ''Method not allowed'')] 405"
  using C9_method_gate [of "\<lparr>req_method = ''OPTIONS'', json = Some sampleTable\<rparr>" sampleRuntime
      sampleCollaborators]
    C9_method_gate [of "\<lparr>req_method = ''GET'', json = None\<rparr>" sampleRuntime sampleCollaborators]
  by simp

text \<open>The body of the response to \<^verbatim>\<open>OPTIONS\<close> is not empty.\<close>

theorem C9_options_body_not_empty:
  "body (fst (serve sampleRuntime sampleCollaborators
                \<lparr>req_method = ''OPTIONS'', json = None\<rparr>)) = Text ''ok''
   \<and> body (fst (serve sampleRuntime sampleCollaborators
                \<lparr>req_method = ''OPTIONS'', json = None\<rparr>)) \<noteq> Text []"
  by (simp add: serve_def)

text \<open>
  C10. For every payload whose six required base fields are non-empty and whose e-mail
  address matches the pattern, but whose date string does not parse (the time value of
  \<^verbatim>\<open>new Date(date)\<close> is \<^verbatim>\<open>NaN\<close>), \<^verbatim>\<open>validateReservationData\<close> returns valid: the date check
  rejects only a date that parses and lies before today, so the reservation goes on to
  the storage with its date string unchanged.
\<close>

theorem C10_unparseable_date:
  assumes "req_method req = ''POST''" and "json req = Some d"
    and "\<not> missingRequired d" and "emailWellFormed d"
    and "Date_parse rt (toString (date d)) = None"
  shows "validateReservationData rt d = \<lparr>valid = True, v_message = None\<rparr>
         \<and> inserts (snd (serve rt co req)) \<noteq> []
         \<and> (\<forall>r \<in> set (inserts (snd (serve rt co req))). col_date r = date d)"
proof -
  from assms(5) have np: "\<not> pastDated rt d"
    by (simp add: pastDated_def dateBefore_def)
  with assms(3,4) have res: "validateReservationData rt d = \<lparr>valid = True, v_message = None\<rparr>"
    by (simp add: validateReservationData_def)
  then have "valid (validateReservationData rt d)" by simp
  from serve_valid_inserts [OF assms(1,2) this, of co] res show ?thesis
    by (auto simp: reservationRow_def)
qed

text \<open>C10 at the date string \<^verbatim>\<open>not-a-date\<close>, on a runtime whose parser accepts nothing but
  calendar dates.\<close>

theorem C10_unparseable_date_witness:
  "Date_parse sampleRuntime ''not-a-date'' = None
   \<and> validateReservationData sampleRuntime (sampleTable\<lparr>date := Some ''not-a-date''\<rparr>)
       = \<lparr>valid = True, v_message = None\<rparr>
   \<and> inserts (snd (serve sampleRuntime sampleCollaborators
        \<lparr>req_method = ''POST'', json = Some (sampleTable\<lparr>date := Some ''not-a-date''\<rparr>)\<rparr>)) \<noteq> []"
proof -
  have p: "Date_parse sampleRuntime ''not-a-date'' = None"
    by (simp add: Date_parse_def sample_dates sampleRuntime_def)
  have c: "\<not> missingRequired (sampleTable\<lparr>date := Some ''not-a-date''\<rparr>)"
    "emailWellFormed (sampleTable\<lparr>date := Some ''not-a-date''\<rparr>)"
    using sample_checks(1,2) by (simp_all add: missingRequired_def emailWellFormed_def falsy_def)
  from C10_unparseable_date [of
      "\<lparr>req_method = ''POST'', json = Some (sampleTable\<lparr>date := Some ''not-a-date''\<rparr>)\<rparr>"
      "sampleTable\<lparr>date := Some ''not-a-date''\<rparr>" sampleRuntime sampleCollaborators, OF _ _ c]
    p
  show ?thesis by (simp add: toString_def)
qed

end
